theory Spec2Isabelle
  imports Complex_Main "HOL-Library.Sublist"
begin

section \<open>Decoded JSON as the Python runtime holds it\<close>

text \<open>
  \<open>response.json()\<close> hands the scraper an arbitrary decoded JSON value: the payload is
  external and untrusted, so every field may hold a value of any JSON type. A float is a
  finite rational or one of the three special values the decoder also accepts. An
  object is an association list; a lookup takes the first binding of a key.
\<close>

datatype pyfloat = Finite rat | PosInf | NegInf | NaN

datatype json =
    JNull
  | JBool bool
  | JInt int
  | JFloat pyfloat
  | JStr string
  | JList "json list"
  | JDict "(string \<times> json) list"

text \<open>
  Exceptions that reach the per-item handler of \<open>extract_schedule_info\<close> or leave the
  function, and the three kinds the timestamp conversion catches.
\<close>

datatype py_exc = AttributeError | TypeError | KeyError | IndexError

datatype conv_exc = ValueError | OSError | OverflowError

text \<open>
  The lines the program prints, one constructor per \<open>print\<close> call of the source, holding
  the values the format string interpolates.
\<close>

datatype log_line =
    FetchError                      \<comment> \<open>line 15: Error fetching data from ...\<close>
  | DecodeError                     \<comment> \<open>line 18: Error decoding JSON: ...\<close>
  | ConversionError json conv_exc   \<comment> \<open>line 30: Error converting timestamp ...\<close>
  | InvalidDataFormat               \<comment> \<open>line 49: Invalid data format received.\<close>
  | UnknownStageWarning json        \<comment> \<open>line 67: Warning: Could not determine stage name for schedule ID ...\<close>
  | ItemError json py_exc           \<comment> \<open>line 105: Error processing schedule item ID ...\<close>
  | FetchingData                    \<comment> \<open>line 130: Fetching schedule data...\<close>
  | ExtractingInformation           \<comment> \<open>line 134: Extracting information...\<close>
  | ExtractedStages nat             \<comment> \<open>line 140: Extracted data for n stages.\<close>
  | StructureHeader                 \<comment> \<open>line 141: Information in JSON format (showing structure):\<close>
  | Separator                       \<comment> \<open>line 142: fifty dashes\<close>
  | DataSaved string                \<comment> \<open>line 151: Data saved to ...\<close>
  | NoValidSchedule                 \<comment> \<open>line 154: No valid schedule information extracted.\<close>
  | FailedToRetrieve                \<comment> \<open>line 158: Failed to retrieve or parse schedule data.\<close>

text \<open>
  A computation that prints and may raise: the lines printed so far, and either the
  exception raised or the value returned.
\<close>

type_synonym 'a step = "log_line list \<times> (py_exc + 'a)"

definition ret :: "'a \<Rightarrow> 'a step" where
  "ret a = ([], Inr a)"

definition lift :: "py_exc + 'a \<Rightarrow> 'a step" where
  "lift r = ([], r)"

definition emit :: "log_line \<Rightarrow> unit step" where
  "emit l = ([l], Inr ())"

definition bind :: "'a step \<Rightarrow> ('a \<Rightarrow> 'b step) \<Rightarrow> 'b step" where
  "bind m f =
     (case m of
        (l, Inl e) \<Rightarrow> (l, Inl e)
      | (l, Inr a) \<Rightarrow> (case f a of (l', r) \<Rightarrow> (l @ l', r)))"

subsection \<open>The Python operations the scraper applies to decoded values\<close>

text \<open>Truth value testing: \<open>None\<close>, \<open>False\<close>, zero and empty containers are false.\<close>

fun truthy :: "json \<Rightarrow> bool" where
  "truthy JNull = False"
| "truthy (JBool b) = b"
| "truthy (JInt n) = (n \<noteq> 0)"
| "truthy (JFloat f) = (f \<noteq> Finite 0)"
| "truthy (JStr s) = (s \<noteq> [])"
| "truthy (JList xs) = (xs \<noteq> [])"
| "truthy (JDict kvs) = (kvs \<noteq> [])"

text \<open>\<open>obj.get(key, default)\<close>: only a dict has the method.\<close>

fun dict_get :: "json \<Rightarrow> string \<Rightarrow> json \<Rightarrow> py_exc + json" where
  "dict_get (JDict kvs) key dflt =
     Inr (case map_of kvs key of None \<Rightarrow> dflt | Some v \<Rightarrow> v)"
| "dict_get _ key dflt = Inl AttributeError"

text \<open>
  \<open>key in obj\<close> for a string key: key membership in a dict, element membership in a
  list, substring test in a string, \<open>TypeError\<close> for everything else.
\<close>

fun py_contains :: "string \<Rightarrow> json \<Rightarrow> py_exc + bool" where
  "py_contains key (JDict kvs) = Inr (key \<in> fst ` set kvs)"
| "py_contains key (JList xs) = Inr (JStr key \<in> set xs)"
| "py_contains key (JStr s) = Inr (sublist key s)"
| "py_contains key _ = Inl TypeError"

text \<open>\<open>obj[key]\<close> for a string key.\<close>

fun py_getitem :: "json \<Rightarrow> string \<Rightarrow> py_exc + json" where
  "py_getitem (JDict kvs) key =
     (case map_of kvs key of None \<Rightarrow> Inl KeyError | Some v \<Rightarrow> Inr v)"
| "py_getitem _ key = Inl TypeError"

text \<open>
  \<open>obj[0]\<close>: the first element of a list or the first character of a string; a decoded
  dict has string keys only, so the key \<open>0\<close> is never found.
\<close>

fun py_first :: "json \<Rightarrow> py_exc + json" where
  "py_first (JList []) = Inl IndexError"
| "py_first (JList (x # xs)) = Inr x"
| "py_first (JStr []) = Inl IndexError"
| "py_first (JStr (c # cs)) = Inr (JStr [c])"
| "py_first (JDict kvs) = Inl KeyError"
| "py_first _ = Inl TypeError"

text \<open>
  Iteration: a list yields its elements, a string its characters as one-character
  strings, a dict its keys; nothing else is iterable.
\<close>

fun py_iter :: "json \<Rightarrow> py_exc + json list" where
  "py_iter (JList xs) = Inr xs"
| "py_iter (JStr s) = Inr (map (\<lambda>c. JStr [c]) s)"
| "py_iter (JDict kvs) = Inr (map JStr (remdups (map fst kvs)))"
| "py_iter _ = Inl TypeError"

text \<open>
  \<open>next((s for s in xs if s.get('language') == 'EN'), None)\<close>: the generator is lazy, so
  the elements after the first match are never inspected, and an element before it that
  is not a dict raises.
\<close>

fun first_EN :: "json list \<Rightarrow> py_exc + json" where
  "first_EN [] = Inr JNull"
| "first_EN (s # rest) =
     (case dict_get s ''language'' JNull of
        Inl e \<Rightarrow> Inl e
      | Inr lang \<Rightarrow> if lang = JStr ''EN'' then Inr s else first_EN rest)"

definition next_EN :: "json \<Rightarrow> py_exc + json" where
  "next_EN xs = (case py_iter xs of Inl e \<Rightarrow> Inl e | Inr items \<Rightarrow> first_EN items)"

section \<open>Timestamp conversion\<close>

text \<open>
  The numbers of the runtime: \<open>bool\<close> is a subclass of \<open>int\<close>, so \<open>True / 1000.0\<close> is
  \<open>0.001\<close>; every other non-null value makes the division raise \<open>TypeError\<close>.
\<close>

datatype pynum = PInt int | PFloat pyfloat

fun numeric_of :: "json \<Rightarrow> pynum option" where
  "numeric_of (JBool b) = Some (PInt (if b then 1 else 0))"
| "numeric_of (JInt n) = Some (PInt n)"
| "numeric_of (JFloat f) = Some (PFloat f)"
| "numeric_of _ = None"

text \<open>
  Lines 26 to 28 of the source call into the runtime: the float division by \<open>1000.0\<close>,
  \<open>datetime.fromtimestamp\<close> in the local time zone and \<open>isoformat\<close>. Their composite on a
  number of milliseconds is a parameter of the embedding. On a number these three calls
  raise nothing but \<open>OverflowError\<close> (the integer does not fit a float, or the float does
  not fit the platform's \<open>time_t\<close>), \<open>OSError\<close> (the platform's \<open>localtime\<close> fails) and
  \<open>ValueError\<close> (not a number, or a year outside 1 to 9999), which is the result type.
\<close>

type_synonym clock = "pynum \<Rightarrow> conv_exc + string"

definition timestamp_to_iso8601 :: "clock \<Rightarrow> json \<Rightarrow> json step" where
  "timestamp_to_iso8601 clock timestamp_ms =
     (if timestamp_ms = JNull then ret JNull
      else case numeric_of timestamp_ms of
             None \<Rightarrow> lift (Inl TypeError)
           | Some ms \<Rightarrow>
               (case clock ms of
                  Inr rendered \<Rightarrow> ret (JStr rendered)
                | Inl e \<Rightarrow> bind (emit (ConversionError timestamp_ms e)) (\<lambda>_. ret JNull)))"

subsection \<open>One runtime to instantiate the parameter\<close>

text \<open>
  CPython on a 64-bit Linux whose local time zone is UTC. The conversion fails with
  \<open>OverflowError\<close> when the integer does not fit a float or the seconds do not fit a
  64-bit \<open>time_t\<close>, with \<open>OSError\<close> when the year does not fit the \<open>int\<close> field of
  \<open>struct tm\<close>, and with \<open>ValueError\<close> when the year is outside 1 to 9999 or when the
  instant one day earlier, which \<open>fromtimestamp\<close> probes for a repeated local hour, is
  before the year 1. An instant is taken to the microsecond from the exact quotient, not
  from the float quotient. So this function is the runtime for every integer number of
  milliseconds whose seconds are below \<open>2 ^ 33\<close> in magnitude (the years 1698 to 2241),
  where the float quotient rounds back to the same microsecond, and it gives the
  runtime's verdict, an exception that line 29 catches, for the year 31690708 of the
  timestamp \<open>10 ^ 18\<close>. On other inputs (floats, instants outside those years) it is one
  member of the parameter's type and may differ from the runtime in the last digits or in
  which of the three exceptions is raised. Every general statement below holds for all
  clocks; this one is evaluated only at timestamps of the years 1970 and 2024 and at
  \<open>10 ^ 18\<close>.
\<close>

definition days_to_civil :: "int \<Rightarrow> int \<times> int \<times> int" where
  "days_to_civil days =
     (let z = days + 719468;
          era = z div 146097;
          doe = z mod 146097;
          yoe = (doe - doe div 1460 + doe div 36524 - doe div 146096) div 365;
          doy = doe - (365 * yoe + yoe div 4 - yoe div 100);
          mp = (5 * doy + 2) div 153;
          d = doy - (153 * mp + 2) div 5 + 1;
          m = (if mp < 10 then mp + 3 else mp - 9)
      in (yoe + era * 400 + (if m \<le> 2 then 1 else 0), m, d))"

definition digit :: "int \<Rightarrow> char" where
  "digit d = ''0123456789'' ! nat d"

definition two_digits :: "int \<Rightarrow> string" where
  "two_digits n = [digit (n div 10 mod 10), digit (n mod 10)]"

definition four_digits :: "int \<Rightarrow> string" where
  "four_digits n = two_digits (n div 100) @ two_digits n"

definition six_digits :: "int \<Rightarrow> string" where
  "six_digits n = two_digits (n div 10000) @ four_digits n"

definition isoformat_utc :: "int \<Rightarrow> string" where
  "isoformat_utc micros =
     (let secs = micros div 1000000;
          frac = micros mod 1000000;
          sod = secs mod 86400;
          (y, m, d) = days_to_civil (secs div 86400)
      in four_digits y @ ''-'' @ two_digits m @ ''-'' @ two_digits d @ ''T''
         @ two_digits (sod div 3600) @ '':'' @ two_digits (sod div 60 mod 60) @ '':''
         @ two_digits (sod mod 60)
         @ (if frac = 0 then [] else ''.'' @ six_digits frac))"

definition round_half_even :: "rat \<Rightarrow> int" where
  "round_half_even x =
     (let f = \<lfloor>x\<rfloor>; d = x - of_int f
      in if d < 1 / 2 then f else if 1 / 2 < d then f + 1
         else if even f then f else f + 1)"

definition from_micros :: "int \<Rightarrow> conv_exc + string" where
  "from_micros micros =
     (let secs = micros div 1000000;
          year = fst (days_to_civil (secs div 86400));
          probed = fst (days_to_civil (secs div 86400 - 1))
      in if secs < - (2 ^ 63) \<or> 2 ^ 63 < secs then Inl OverflowError
         else if year < - 2147481748 \<or> 2147485547 < year then Inl OSError
         else if year < 1 \<or> 9999 < year \<or> probed < 1 then Inl ValueError
         else Inr (isoformat_utc micros))"

fun utc_clock :: clock where
  "utc_clock (PInt n) =
     (if 2 ^ 1024 - 2 ^ 970 \<le> \<bar>n\<bar> then Inl OverflowError else from_micros (n * 1000))"
| "utc_clock (PFloat (Finite r)) = from_micros (round_half_even (r * 1000))"
| "utc_clock (PFloat NaN) = Inl ValueError"
| "utc_clock (PFloat _) = Inl OverflowError"

section \<open>Stage name resolution\<close>

definition extract_stage_name :: "json \<Rightarrow> py_exc + json" where
  "extract_stage_name stage_info =
     (if \<not> truthy stage_info then Inr JNull
      else case dict_get stage_info ''localized'' (JList []) of
             Inl e \<Rightarrow> Inl e
           | Inr localized_stages \<Rightarrow>
               (case next_EN localized_stages of
                  Inl e \<Rightarrow> Inl e
                | Inr en_name_entry \<Rightarrow>
                    if truthy en_name_entry then dict_get en_name_entry ''name'' JNull
                    else if truthy localized_stages then
                      (case py_first localized_stages of
                         Inl e \<Rightarrow> Inl e
                       | Inr first_entry \<Rightarrow> dict_get first_entry ''name'' JNull)
                    else Inr JNull))"

section \<open>Schedule extraction\<close>

text \<open>
  The performance entry of lines 86 to 92. Its key \<open>id\<close> is the field \<open>entry_id\<close>, since
  \<open>id\<close> is the identity function of HOL.
\<close>

record performance_entry =
  entry_id :: json
  date_from_iso8601 :: json
  date_to_iso8601 :: json
  artist_name :: json
  genre :: json

text \<open>
  The keys of \<open>stages_dict\<close>. A key must be hashable, which a list and a dict are not.
  Python identifies keys by equality, and \<open>True == 1 == 1.0\<close>, so a number is kept by its
  value.
\<close>

datatype pykey = KNone | KStr string | KNum pyfloat

fun hash_key :: "json \<Rightarrow> py_exc + pykey" where
  "hash_key JNull = Inr KNone"
| "hash_key (JBool b) = Inr (KNum (Finite (if b then 1 else 0)))"
| "hash_key (JInt n) = Inr (KNum (Finite (of_int n)))"
| "hash_key (JFloat f) = Inr (KNum f)"
| "hash_key (JStr s) = Inr (KStr s)"
| "hash_key _ = Inl TypeError"

text \<open>The dict of stages, in insertion order, as Python keeps it.\<close>

type_synonym stages = "(pykey \<times> performance_entry list) list"

text \<open>
  Lines 65 to 67: a stage name that is not truthy is replaced by the placeholder, and a
  warning with the item's id is printed.
\<close>

definition stage_name_or_unknown :: "json \<Rightarrow> json \<Rightarrow> json step" where
  "stage_name_or_unknown schedule_id stage_name =
     (if \<not> truthy stage_name
      then bind (emit (UnknownStageWarning schedule_id)) (\<lambda>_. ret (JStr ''Unknown Stage''))
      else ret stage_name)"

text \<open>Line 70: \<open>artist_info.get('name') if artist_info else None\<close>.\<close>

definition artist_name_lookup :: "json \<Rightarrow> py_exc + json" where
  "artist_name_lookup artist_info =
     (if truthy artist_info then dict_get artist_info ''name'' JNull else Inr JNull)"

text \<open>
  Lines 73 to 75: the first entry of \<open>artist_info['localized']\<close> with language \<open>EN\<close>, or
  \<open>None\<close>. Unlike the stage name, there is no second lookup when no entry is English.
\<close>

definition en_artist_lookup :: "json \<Rightarrow> py_exc + json" where
  "en_artist_lookup artist_info =
     (if truthy artist_info then
        (case py_contains ''localized'' artist_info of
           Inl e \<Rightarrow> Inl e
         | Inr False \<Rightarrow> Inr JNull
         | Inr True \<Rightarrow>
             (case py_getitem artist_info ''localized'' of
                Inl e \<Rightarrow> Inl e
              | Inr localized \<Rightarrow> next_EN localized))
      else Inr JNull)"

text \<open>Line 83: \<open>en_artist_info.get('genre') if en_artist_info else None\<close>.\<close>

definition genre_lookup :: "json \<Rightarrow> py_exc + json" where
  "genre_lookup en_artist_info =
     (if truthy en_artist_info then dict_get en_artist_info ''genre'' JNull else Inr JNull)"

text \<open>
  Lines 57 to 92 and the hashing of the key at line 95: everything the \<open>try\<close> block does
  before it touches \<open>stages_dict\<close>. The result is \<open>None\<close> for an item the gate drops, and
  the key with the record for an item that is kept.
\<close>

definition performance_of :: "clock \<Rightarrow> json \<Rightarrow> (pykey \<times> performance_entry) option step" where
  "performance_of clock item =
     bind (lift (dict_get item ''id'' JNull)) (\<lambda>schedule_id.
     bind (lift (dict_get item ''date_from'' JNull)) (\<lambda>date_from_ms.
     bind (lift (dict_get item ''date_to'' JNull)) (\<lambda>date_to_ms.
     bind (lift (dict_get item ''stage'' JNull)) (\<lambda>stage_info.
     bind (lift (extract_stage_name stage_info)) (\<lambda>resolved.
     bind (stage_name_or_unknown schedule_id resolved) (\<lambda>stage_name.
     bind (lift (dict_get item ''artist'' (JDict []))) (\<lambda>artist_info.
     bind (lift (artist_name_lookup artist_info)) (\<lambda>artist_name.
     bind (lift (en_artist_lookup artist_info)) (\<lambda>en_artist_info.
     if schedule_id \<noteq> JNull \<and> date_from_ms \<noteq> JNull \<and> truthy artist_name then
       bind (timestamp_to_iso8601 clock date_from_ms) (\<lambda>iso_date_from.
       bind (timestamp_to_iso8601 clock date_to_ms) (\<lambda>iso_date_to.
       bind (lift (genre_lookup en_artist_info)) (\<lambda>genre.
       bind (lift (hash_key stage_name)) (\<lambda>key.
       ret (Some (key,
         \<lparr>entry_id = schedule_id,
          date_from_iso8601 = iso_date_from,
          date_to_iso8601 = iso_date_to,
          artist_name = artist_name,
          genre = genre\<rparr>))))))
     else ret None)))))))))"

text \<open>
  Lines 95 to 97: create the list of the stage on first use, then append. Neither line
  can raise once the key is hashed.
\<close>

definition add_entry :: "pykey \<Rightarrow> performance_entry \<Rightarrow> stages \<Rightarrow> stages" where
  "add_entry stage_name performance stages_dict =
     (let created = (if stage_name \<notin> fst ` set stages_dict
                     then stages_dict @ [(stage_name, [])] else stages_dict)
      in map (\<lambda>(k, entries). if k = stage_name then (k, entries @ [performance])
                               else (k, entries)) created)"

text \<open>The body of the \<open>try\<close> block, lines 57 to 102.\<close>

definition try_item :: "clock \<Rightarrow> json \<Rightarrow> stages \<Rightarrow> stages step" where
  "try_item clock item stages_dict =
     bind (performance_of clock item) (\<lambda>r.
       case r of
         None \<Rightarrow> ret stages_dict
       | Some (stage_name, performance) \<Rightarrow> ret (add_entry stage_name performance stages_dict))"

text \<open>
  The \<open>for\<close> loop with its handler, lines 55 to 106. The handler formats
  \<open>item.get('id', 'Unknown')\<close>: on an item that is not a dict this call raises again, and
  nothing catches it. An exception in the \<open>try\<close> block leaves \<open>stages_dict\<close> as it was,
  since the block's only writes are its last two lines.
\<close>

fun run_schedules :: "clock \<Rightarrow> json list \<Rightarrow> stages \<Rightarrow> stages step" where
  "run_schedules clock [] stages_dict = ret stages_dict"
| "run_schedules clock (item # rest) stages_dict =
     (case try_item clock item stages_dict of
        (printed, Inr stages_dict') \<Rightarrow>
          bind (printed, Inr ()) (\<lambda>_. run_schedules clock rest stages_dict')
      | (printed, Inl e) \<Rightarrow>
          bind (printed, Inr ()) (\<lambda>_.
          bind (lift (dict_get item ''id'' (JStr ''Unknown''))) (\<lambda>shown_id.
          bind (emit (ItemError shown_id e)) (\<lambda>_.
          run_schedules clock rest stages_dict))))"

definition extract_schedule_info :: "clock \<Rightarrow> json \<Rightarrow> stages step" where
  "extract_schedule_info clock schedule_data =
     (if \<not> truthy schedule_data then bind (emit InvalidDataFormat) (\<lambda>_. ret [])
      else
        bind (lift (py_contains ''schedules'' schedule_data)) (\<lambda>present.
        if \<not> present then bind (emit InvalidDataFormat) (\<lambda>_. ret [])
        else
          bind (lift (py_getitem schedule_data ''schedules'')) (\<lambda>schedules.
          bind (lift (py_iter schedules)) (\<lambda>items.
          run_schedules clock items []))))"

section \<open>Fetching and the entry point\<close>

text \<open>
  What the single HTTP GET can end in, by the clause of the source that handles it.
  \<open>RequestFailed\<close> is any \<open>RequestException\<close>, caught at line 14: connection, timeout, a
  status that is not 2xx, and, with the versions of \<open>requests\<close> whose JSON error is a
  \<open>RequestException\<close>, a body that is not JSON. \<open>BodyNotJson\<close> is a \<open>ValueError\<close> that is
  not a \<open>RequestException\<close>, caught at line 17: a body that is not JSON with the older
  versions. \<open>Decoded\<close> is a decoded body. An exception of any other class is caught by
  neither clause and ends the program; it is not among the outcomes.
\<close>

datatype http_outcome = RequestFailed | BodyNotJson | Decoded json

text \<open>The sentinel for "no data" is \<open>None\<close>, which is also what a body \<open>null\<close> decodes to.\<close>

fun fetch_and_extract_schedule_data :: "http_outcome \<Rightarrow> json step" where
  "fetch_and_extract_schedule_data (Decoded data) = ret data"
| "fetch_and_extract_schedule_data RequestFailed = bind (emit FetchError) (\<lambda>_. ret JNull)"
| "fetch_and_extract_schedule_data BodyNotJson = bind (emit DecodeError) (\<lambda>_. ret JNull)"

text \<open>
  The entry point returns what it wrote: the destination path with the mapping that
  \<open>json.dump\<close> serialised, or nothing. Opening the destination and writing to it are
  taken to succeed.
\<close>

definition main :: "clock \<Rightarrow> string \<Rightarrow> http_outcome \<Rightarrow> (string \<times> stages) option step" where
  "main clock output_filename response =
     bind (emit FetchingData) (\<lambda>_.
     bind (fetch_and_extract_schedule_data response) (\<lambda>raw_data.
     if truthy raw_data then
       bind (emit ExtractingInformation) (\<lambda>_.
       bind (extract_schedule_info clock raw_data) (\<lambda>stages_data.
       if stages_data \<noteq> [] then
         bind (emit (ExtractedStages (length stages_data))) (\<lambda>_.
         bind (emit StructureHeader) (\<lambda>_.
         bind (emit Separator) (\<lambda>_.
         bind (emit (DataSaved output_filename)) (\<lambda>_.
         ret (Some (output_filename, stages_data))))))
       else bind (emit NoValidSchedule) (\<lambda>_. ret None)))
     else bind (emit FailedToRetrieve) (\<lambda>_. ret None)))"

section \<open>Vocabulary of the statements\<close>

text \<open>
  What the statements below say about an item is said through the reads the source itself
  makes: \<open>item.get(key)\<close> where the item is a dict, the artist name of lines 69 and 70, and
  the condition of the inclusion gate at line 78.
\<close>

fun is_dict :: "json \<Rightarrow> bool" where
  "is_dict (JDict kvs) = True"
| "is_dict _ = False"

definition get_or_null :: "json \<Rightarrow> string \<Rightarrow> json" where
  "get_or_null obj key = (case dict_get obj key JNull of Inl e \<Rightarrow> JNull | Inr v \<Rightarrow> v)"

definition artist_name_of :: "json \<Rightarrow> json" where
  "artist_name_of item =
     (case dict_get item ''artist'' (JDict []) of
        Inl e \<Rightarrow> JNull
      | Inr artist_info \<Rightarrow>
          (case artist_name_lookup artist_info of Inl e \<Rightarrow> JNull | Inr name \<Rightarrow> name))"

definition passes_gate :: "json \<Rightarrow> bool" where
  "passes_gate item \<longleftrightarrow>
     get_or_null item ''id'' \<noteq> JNull \<and> get_or_null item ''date_from'' \<noteq> JNull
     \<and> truthy (artist_name_of item)"

text \<open>An entry of a localized list that the generator of line 39 or 75 selects.\<close>

definition is_EN :: "json \<Rightarrow> bool" where
  "is_EN entry \<longleftrightarrow> dict_get entry ''language'' JNull = Inr (JStr ''EN'')"

text \<open>
  The records a list of items yields, in the order of the items: one for every item whose
  \<open>try\<close> block reaches line 97.
\<close>

definition kept_entries :: "clock \<Rightarrow> json list \<Rightarrow> (pykey \<times> performance_entry) list" where
  "kept_entries clock items =
     List.map_filter
       (\<lambda>item. case snd (performance_of clock item) of Inr (Some kp) \<Rightarrow> Some kp | _ \<Rightarrow> None)
       items"

text \<open>\<open>stages_dict.get(k, [])\<close>, and the loop's writes replayed on their own.\<close>

definition entries_at :: "stages \<Rightarrow> pykey \<Rightarrow> performance_entry list" where
  "entries_at stages_dict k = (case map_of stages_dict k of None \<Rightarrow> [] | Some es \<Rightarrow> es)"

definition add_all :: "(pykey \<times> performance_entry) list \<Rightarrow> stages \<Rightarrow> stages" where
  "add_all kps stages_dict = fold (\<lambda>(k, p). add_entry k p) kps stages_dict"




definition timestamp_ok :: "json \<Rightarrow> bool" where
  "timestamp_ok v \<longleftrightarrow> v = JNull \<or> numeric_of v \<noteq> None"


section \<open>Printing and raising: the laws of the steps\<close>

lemma snd_bind: "snd (bind m f) = (case snd m of Inl e \<Rightarrow> Inl e | Inr a \<Rightarrow> snd (f a))"
  by (simp add: bind_def split: prod.splits sum.splits)

lemma fst_bind: "fst (bind m f) = (case snd m of Inl e \<Rightarrow> fst m | Inr a \<Rightarrow> fst m @ fst (f a))"
  by (simp add: bind_def split: prod.splits sum.splits)

lemma step_simps:
  "snd (ret a) = Inr a" "fst (ret a) = []"
  "snd (lift r) = r" "fst (lift r) = []"
  "snd (emit l) = Inr ()" "fst (emit l) = [l]"
  by (simp_all add: ret_def lift_def emit_def)

lemma bind_sndE:
  assumes "snd (bind m f) = Inr b"
  obtains a where "snd m = Inr a" and "snd (f a) = Inr b"
  using assms by (auto simp add: snd_bind split: sum.splits)

lemma gate_sndE:
  assumes "snd (if c then m else ret None) = Inr (Some x)"
  obtains "c" and "snd m = Inr (Some x)"
  using assms by (simp add: step_simps split: if_splits)

section \<open>Reads of a decoded value\<close>

lemma dict_get_null: "is_dict obj \<Longrightarrow> dict_get obj key JNull = Inr (get_or_null obj key)"
  by (cases obj) (simp_all add: get_or_null_def)

lemma dict_get_is_dict: "is_dict obj \<Longrightarrow> \<exists>v. dict_get obj key dflt = Inr v"
  by (cases obj) simp_all

lemma dict_get_not_dict: "\<not> is_dict obj \<Longrightarrow> dict_get obj key dflt = Inl AttributeError"
  by (cases obj) simp_all

lemma is_EN_truthy: "is_EN e \<Longrightarrow> truthy e \<and> is_dict e"
  by (cases e) (auto simp add: is_EN_def)

lemma find_is_EN_Some: "find is_EN entries = Some e \<Longrightarrow> is_EN e \<and> e \<in> set entries"
  by (induction entries) (auto split: if_splits)

lemma first_EN_find:
  "first_EN entries = Inr en \<Longrightarrow> en = (case find is_EN entries of None \<Rightarrow> JNull | Some e \<Rightarrow> e)"
  by (induction entries) (auto simp add: is_EN_def split: sum.splits if_splits)


section \<open>Timestamp conversion: what is returned\<close>

lemma snd_timestamp:
  "snd (timestamp_to_iso8601 clock v) =
     (if v = JNull then Inr JNull
      else case numeric_of v of
             None \<Rightarrow> Inl TypeError
           | Some ms \<Rightarrow> Inr (case clock ms of Inr s \<Rightarrow> JStr s | Inl e \<Rightarrow> JNull))"
  by (simp add: timestamp_to_iso8601_def snd_bind step_simps split: option.splits sum.splits)

lemma timestamp_ok_returns:
  "timestamp_ok v \<Longrightarrow> \<exists>r. snd (timestamp_to_iso8601 clock v) = Inr r"
  by (auto simp add: timestamp_ok_def snd_timestamp)

section \<open>Stage name resolution: what is returned\<close>




section \<open>One item: what the \<open>try\<close> block returns and prints\<close>

lemma snd_stage_name_or_unknown:
  "snd (stage_name_or_unknown i resolved) =
     Inr (if truthy resolved then resolved else JStr ''Unknown Stage'')"
  by (simp add: stage_name_or_unknown_def snd_bind step_simps)

lemma performance_of_not_dict:
  "\<not> is_dict item \<Longrightarrow> performance_of clock item = ([], Inl AttributeError)"
  by (cases item) (simp_all add: performance_of_def bind_def lift_def)

lemma performance_of_SomeE:
  assumes "snd (performance_of clock item) = Inr (Some (k, p))"
  obtains schedule_id date_from_ms date_to_ms stage_info resolved artist_info name
    en_artist_info iso_date_from iso_date_to g
  where "dict_get item ''id'' JNull = Inr schedule_id"
    and "dict_get item ''date_from'' JNull = Inr date_from_ms"
    and "dict_get item ''date_to'' JNull = Inr date_to_ms"
    and "dict_get item ''stage'' JNull = Inr stage_info"
    and "extract_stage_name stage_info = Inr resolved"
    and "dict_get item ''artist'' (JDict []) = Inr artist_info"
    and "artist_name_lookup artist_info = Inr name"
    and "en_artist_lookup artist_info = Inr en_artist_info"
    and "schedule_id \<noteq> JNull" and "date_from_ms \<noteq> JNull" and "truthy name"
    and "snd (timestamp_to_iso8601 clock date_from_ms) = Inr iso_date_from"
    and "snd (timestamp_to_iso8601 clock date_to_ms) = Inr iso_date_to"
    and "genre_lookup en_artist_info = Inr g"
    and "hash_key (if truthy resolved then resolved else JStr ''Unknown Stage'') = Inr k"
    and "p = \<lparr>entry_id = schedule_id, date_from_iso8601 = iso_date_from,
               date_to_iso8601 = iso_date_to, artist_name = name, genre = g\<rparr>"
  using assms unfolding performance_of_def
  apply (elim bind_sndE gate_sndE)
  apply (simp add: step_simps snd_stage_name_or_unknown)
  done


lemma kept_fields:
  assumes "snd (performance_of clock item) = Inr (Some (k, p))"
  shows "passes_gate item \<and> entry_id p = get_or_null item ''id''
    \<and> artist_name p = artist_name_of item
    \<and> (\<exists>ms. numeric_of (get_or_null item ''date_from'') = Some ms
          \<and> date_from_iso8601 p = (case clock ms of Inr s \<Rightarrow> JStr s | Inl e \<Rightarrow> JNull))"
  using assms
proof (rule performance_of_SomeE)
  fix schedule_id date_from_ms date_to_ms stage_info resolved artist_info name
    en_artist_info iso_date_from iso_date_to g
  assume a: "dict_get item ''id'' JNull = Inr schedule_id"
    "dict_get item ''date_from'' JNull = Inr date_from_ms"
    "dict_get item ''artist'' (JDict []) = Inr artist_info"
    "artist_name_lookup artist_info = Inr name"
    "schedule_id \<noteq> JNull" "date_from_ms \<noteq> JNull" "truthy name"
    "snd (timestamp_to_iso8601 clock date_from_ms) = Inr iso_date_from"
    "p = \<lparr>entry_id = schedule_id, date_from_iso8601 = iso_date_from,
               date_to_iso8601 = iso_date_to, artist_name = name, genre = g\<rparr>"
  have n: "artist_name_of item = name"
    using a(3,4) by (simp add: artist_name_of_def)
  have d: "\<exists>ms. numeric_of date_from_ms = Some ms
      \<and> iso_date_from = (case clock ms of Inr s \<Rightarrow> JStr s | Inl e \<Rightarrow> JNull)"
    using a(6,8) by (auto simp add: snd_timestamp split: option.splits)
  show ?thesis
    using a(1,2,5,6,7,9) n d by (simp add: passes_gate_def get_or_null_def)
qed




section \<open>The loop: which items it keeps and where it puts them\<close>

lemma kept_entries_Nil: "kept_entries clock [] = []"
  by (simp add: kept_entries_def map_filter_simps)

lemma kept_entries_Cons:
  "kept_entries clock (item # items) =
     (case snd (performance_of clock item) of
        Inr (Some kp) \<Rightarrow> kp # kept_entries clock items
      | _ \<Rightarrow> kept_entries clock items)"
  by (simp add: kept_entries_def map_filter_simps split: sum.splits option.splits)

lemma kept_entries_origin:
  "kp \<in> set (kept_entries clock items) \<Longrightarrow>
     \<exists>item \<in> set items. snd (performance_of clock item) = Inr (Some kp)"
  by (induction items) (auto simp add: kept_entries_Nil kept_entries_Cons
      split: sum.splits option.splits)

lemma add_all_Cons: "add_all (kp # kps) d = add_all kps (add_entry (fst kp) (snd kp) d)"
  by (simp add: add_all_def split: prod.splits)

lemma snd_try_item:
  "snd (try_item clock item d) =
     (case snd (performance_of clock item) of
        Inl e \<Rightarrow> Inl e
      | Inr None \<Rightarrow> Inr d
      | Inr (Some kp) \<Rightarrow> Inr (add_entry (fst kp) (snd kp) d))"
  by (simp add: try_item_def snd_bind step_simps split: sum.splits option.splits prod.splits)

lemma snd_run_schedules_Cons:
  "snd (run_schedules clock (item # rest) d) =
     (case snd (try_item clock item d) of
        Inr d' \<Rightarrow> snd (run_schedules clock rest d')
      | Inl e \<Rightarrow>
          (case dict_get item ''id'' (JStr ''Unknown'') of
             Inl e' \<Rightarrow> Inl e'
           | Inr shown \<Rightarrow> snd (run_schedules clock rest d)))"
proof (cases "try_item clock item d")
  case (Pair printed r)
  then show ?thesis
    by (cases r; cases "dict_get item ''id'' (JStr ''Unknown'')")
      (simp_all add: snd_bind step_simps)
qed

lemma snd_run_schedules:
  "snd (run_schedules clock items d) =
     (if list_all is_dict items then Inr (add_all (kept_entries clock items) d)
      else Inl AttributeError)"
proof (induction items arbitrary: d)
  case Nil
  show ?case by (simp add: step_simps kept_entries_Nil add_all_def)
next
  case (Cons item items)
  show ?case
  proof (cases "is_dict item")
    case False
    then show ?thesis
      by (simp add: snd_run_schedules_Cons snd_try_item performance_of_not_dict
          dict_get_not_dict del: run_schedules.simps)
  next
    case True
    then obtain shown where "dict_get item ''id'' (JStr ''Unknown'') = Inr shown"
      using dict_get_is_dict by blast
    with True show ?thesis
      by (simp add: snd_run_schedules_Cons snd_try_item Cons.IH kept_entries_Cons add_all_Cons
          del: run_schedules.simps split: sum.splits option.splits)
  qed
qed

lemma add_entry_alt:
  "add_entry k p d =
     (if k \<in> fst ` set d
      then map (\<lambda>(k', es). if k' = k then (k', es @ [p]) else (k', es)) d
      else d @ [(k, [p])])"
proof -
  have "k \<notin> fst ` set d \<Longrightarrow>
     map (\<lambda>(k', es). if k' = k then (k', es @ [p]) else (k', es)) d = d"
    by (induction d) auto
  then show ?thesis
    by (simp add: add_entry_def)
qed

lemma keys_add_entry:
  "map fst (add_entry k p d) = (if k \<in> fst ` set d then map fst d else map fst d @ [k])"
proof -
  have "map fst (map (\<lambda>(k', es). if k' = k then (k', es @ [p]) else (k', es)) d) = map fst d"
    by (induction d) auto
  then show ?thesis
    by (simp add: add_entry_alt)
qed

lemma distinct_add_entry: "distinct (map fst d) \<Longrightarrow> distinct (map fst (add_entry k p d))"
  by (auto simp add: keys_add_entry)

lemma map_of_updated:
  "map_of (map (\<lambda>(k', es). if k' = k then (k', es @ [p]) else (k', es)) d) k'' =
     (case map_of d k'' of
        None \<Rightarrow> None
      | Some es \<Rightarrow> Some (if k'' = k then es @ [p] else es))"
  by (induction d) auto

lemma entries_at_add_entry:
  "entries_at (add_entry k p d) k'' = (if k'' = k then entries_at d k @ [p] else entries_at d k'')"
proof (cases "k \<in> fst ` set d")
  case True
  then obtain es where "map_of d k = Some es"
    by (metis map_of_eq_None_iff not_Some_eq)
  with True show ?thesis
    by (simp add: entries_at_def add_entry_alt map_of_updated split: option.splits)
next
  case False
  then have "map_of d k = None"
    by (simp add: map_of_eq_None_iff)
  with False show ?thesis
    by (simp add: entries_at_def add_entry_alt map_add_def split: option.splits)
qed

lemma entries_at_add_all:
  "entries_at (add_all kps d) k = entries_at d k @ map snd (filter (\<lambda>kp. fst kp = k) kps)"
proof (induction kps arbitrary: d)
  case Nil
  show ?case by (simp add: add_all_def)
next
  case (Cons kp kps)
  show ?case
    by (simp add: add_all_Cons Cons.IH entries_at_add_entry)
qed

lemma distinct_add_all: "distinct (map fst d) \<Longrightarrow> distinct (map fst (add_all kps d))"
proof (induction kps arbitrary: d)
  case Nil
  then show ?case by (simp add: add_all_def)
next
  case (Cons kp kps)
  then show ?case
    by (simp add: add_all_Cons distinct_add_entry)
qed

lemma keys_add_all: "fst ` set (add_all kps d) = fst ` set d \<union> fst ` set kps"
proof (induction kps arbitrary: d)
  case Nil
  show ?case by (simp add: add_all_def)
next
  case (Cons kp kps)
  have "set (map fst (add_entry (fst kp) (snd kp) d)) = insert (fst kp) (fst ` set d)"
    by (auto simp add: keys_add_entry)
  then have "fst ` set (add_entry (fst kp) (snd kp) d) = insert (fst kp) (fst ` set d)"
    by simp
  then show ?case
    unfolding add_all_Cons Cons.IH by auto
qed

lemma nonempty_add_entry:
  "\<forall>kes \<in> set d. snd kes \<noteq> [] \<Longrightarrow> \<forall>kes \<in> set (add_entry k p d). snd kes \<noteq> []"
  by (auto simp add: add_entry_alt split: if_splits)

lemma nonempty_add_all:
  "\<forall>kes \<in> set d. snd kes \<noteq> [] \<Longrightarrow> \<forall>kes \<in> set (add_all kps d). snd kes \<noteq> []"
proof (induction kps arbitrary: d)
  case Nil
  then show ?case by (simp add: add_all_def)
next
  case (Cons kp kps)
  show ?case
    unfolding add_all_Cons by (rule Cons.IH) (rule nonempty_add_entry, rule Cons.prems)
qed

lemma members_add_all:
  assumes "(k, es) \<in> set (add_all kps [])" and "p \<in> set es"
  shows "(k, p) \<in> set kps"
proof -
  have "distinct (map fst (add_all kps []))"
    by (simp add: distinct_add_all)
  with assms(1) have "map_of (add_all kps []) k = Some es"
    by simp
  then have "es = entries_at (add_all kps []) k"
    by (simp add: entries_at_def)
  moreover have "entries_at ([] :: stages) k = []"
    by (simp add: entries_at_def)
  ultimately have "es = map snd (filter (\<lambda>kp. fst kp = k) kps)"
    by (simp add: entries_at_add_all)
  with assms(2) show ?thesis
    by auto
qed

lemma snd_extract_schedules:
  assumes "map_of kvs ''schedules'' = Some (JList items)"
  shows "snd (extract_schedule_info clock (JDict kvs)) = snd (run_schedules clock items [])"
proof -
  have "kvs \<noteq> []" using assms by auto
  moreover have "''schedules'' \<in> fst ` set kvs"
    using assms by (metis map_of_eq_None_iff option.distinct(1))
  ultimately show ?thesis
    using assms by (simp add: extract_schedule_info_def snd_bind step_simps)
qed

lemma extract_result_shape:
  assumes "snd (extract_schedule_info clock data) = Inr out"
  shows "\<exists>items. out = add_all (kept_entries clock items) []"
proof (cases "truthy data \<and> py_contains ''schedules'' data = Inr True")
  case False
  then have "out = []"
    using assms
    by (auto simp add: extract_schedule_info_def snd_bind step_simps split: if_splits sum.splits)
  then have "out = add_all (kept_entries clock []) []"
    by (simp add: kept_entries_Nil add_all_def)
  then show ?thesis by blast
next
  case True
  then obtain schedules items where "py_iter schedules = Inr items"
    and "snd (run_schedules clock items []) = Inr out"
    using assms
    by (auto simp add: extract_schedule_info_def snd_bind step_simps split: if_splits sum.splits)
  then show ?thesis
    by (auto simp add: snd_run_schedules split: if_splits)
qed

section \<open>Items of the data model's shape raise nothing\<close>






section \<open>The loop: what it prints, and how many records it stores\<close>

















section \<open>The claims\<close>

subsection \<open>Stage name resolution and the placeholder key\<close>







subsection \<open>Timestamp conversion\<close>

text \<open>
  C7, as stated, fails on a timestamp that is neither null nor a number: the division by
  \<open>1000.0\<close> raises \<open>TypeError\<close>, which the handler at line 29 does not list, and the
  exception reaches the caller.
\<close>

theorem timestamp_conversion_counterexample:
  "timestamp_to_iso8601 utc_clock (JStr ''123'') = ([], Inl TypeError)"
  by (simp add: timestamp_to_iso8601_def lift_def)

text \<open>
  C7, as amended. Timestamp conversion maps a null input to null and prints nothing. On a
  number whose conversion the runtime rejects (overflow, or a date that does not exist) it
  prints the diagnostic with the input and the error and returns null; on a number the
  runtime converts it returns the rendering. So on null and on every number it raises
  nothing to its caller. On every other input (a string, a list, an object) it raises
  \<open>TypeError\<close> to its caller and prints nothing.
\<close>

theorem timestamp_conversion_outcomes:
  "timestamp_to_iso8601 clock JNull = ([], Inr JNull)
   \<and> (numeric_of v = Some ms \<and> clock ms = Inl e \<longrightarrow>
        timestamp_to_iso8601 clock v = ([ConversionError v e], Inr JNull))
   \<and> (numeric_of v = Some ms \<and> clock ms = Inr rendered \<longrightarrow>
        timestamp_to_iso8601 clock v = ([], Inr (JStr rendered)))
   \<and> (timestamp_ok v \<longrightarrow> \<not> isl (snd (timestamp_to_iso8601 clock v)))
   \<and> (\<not> timestamp_ok v \<longrightarrow> timestamp_to_iso8601 clock v = ([], Inl TypeError))"
proof (intro conjI impI)
  show "timestamp_to_iso8601 clock JNull = ([], Inr JNull)"
    by (simp add: timestamp_to_iso8601_def ret_def)
next
  assume a: "numeric_of v = Some ms \<and> clock ms = Inl e"
  then have "v \<noteq> JNull"
    by auto
  with a show "timestamp_to_iso8601 clock v = ([ConversionError v e], Inr JNull)"
    by (simp add: timestamp_to_iso8601_def bind_def emit_def ret_def)
next
  assume a: "numeric_of v = Some ms \<and> clock ms = Inr rendered"
  then have "v \<noteq> JNull"
    by auto
  with a show "timestamp_to_iso8601 clock v = ([], Inr (JStr rendered))"
    by (simp add: timestamp_to_iso8601_def ret_def)
next
  assume "timestamp_ok v"
  then obtain r where "snd (timestamp_to_iso8601 clock v) = Inr r"
    using timestamp_ok_returns by blast
  then show "\<not> isl (snd (timestamp_to_iso8601 clock v))"
    by simp
next
  assume "\<not> timestamp_ok v"
  then show "timestamp_to_iso8601 clock v = ([], Inl TypeError)"
    by (simp add: timestamp_ok_def timestamp_to_iso8601_def lift_def)
qed

theorem timestamp_conversion_outcomes_witness:
  "numeric_of (JInt 1000000000000000000) = Some (PInt 1000000000000000000)
   \<and> utc_clock (PInt 1000000000000000000) = Inl ValueError
   \<and> timestamp_ok (JInt 1000000000000000000)
   \<and> timestamp_to_iso8601 utc_clock (JInt 1000000000000000000)
       = ([ConversionError (JInt 1000000000000000000) ValueError], Inr JNull)
   \<and> \<not> isl (snd (timestamp_to_iso8601 utc_clock (JInt 1000000000000000000)))
   \<and> numeric_of (JInt 1716000000000) = Some (PInt 1716000000000)
   \<and> utc_clock (PInt 1716000000000) = Inr ''2024-05-18T02:40:00''
   \<and> timestamp_to_iso8601 utc_clock (JInt 1716000000000)
       = ([], Inr (JStr ''2024-05-18T02:40:00''))
   \<and> \<not> timestamp_ok (JList [JInt 1716000000000])
   \<and> timestamp_to_iso8601 utc_clock (JList [JInt 1716000000000]) = ([], Inl TypeError)"
proof -
  have n: "numeric_of (JInt 1000000000000000000) = Some (PInt 1000000000000000000)"
    by simp
  have c: "utc_clock (PInt 1000000000000000000) = Inl ValueError"
    by code_simp
  have k: "timestamp_ok (JInt 1000000000000000000)"
    by (simp add: timestamp_ok_def)
  have n': "numeric_of (JInt 1716000000000) = Some (PInt 1716000000000)"
    by simp
  have c': "utc_clock (PInt 1716000000000) = Inr ''2024-05-18T02:40:00''"
    by code_simp
  have x: "\<not> timestamp_ok (JList [JInt 1716000000000])"
    by (simp add: timestamp_ok_def)
  note t = timestamp_conversion_outcomes
    [of utc_clock "JInt 1000000000000000000" "PInt 1000000000000000000" ValueError]
  from t n c have a: "timestamp_to_iso8601 utc_clock (JInt 1000000000000000000)
       = ([ConversionError (JInt 1000000000000000000) ValueError], Inr JNull)"
    by blast
  from t k have b: "\<not> isl (snd (timestamp_to_iso8601 utc_clock (JInt 1000000000000000000)))"
    by blast
  from timestamp_conversion_outcomes
    [of utc_clock "JInt 1716000000000" "PInt 1716000000000" _ "''2024-05-18T02:40:00''"] n' c'
  have s: "timestamp_to_iso8601 utc_clock (JInt 1716000000000)
       = ([], Inr (JStr ''2024-05-18T02:40:00''))"
    by blast
  from timestamp_conversion_outcomes [of utc_clock "JList [JInt 1716000000000]"] x
  have y: "timestamp_to_iso8601 utc_clock (JList [JInt 1716000000000]) = ([], Inl TypeError)"
    by blast
  from n c k a b n' c' s x y show ?thesis
    by blast
qed

subsection \<open>The records of the output\<close>

text \<open>
  C9. For every input on which \<open>extract_schedule_info\<close> returns a mapping, every value of
  the mapping is a non-empty sequence; and when the input is an object whose \<open>schedules\<close>
  is a list, the keys of the mapping are exactly the keys of the records kept, so an item
  that prints the \<open>Unknown Stage\<close> warning and is then dropped by the gate creates no key.
\<close>

theorem stage_sequences_nonempty:
  assumes "snd (extract_schedule_info clock data) = Inr out"
  shows "(\<forall>kes \<in> set out. snd kes \<noteq> [])
     \<and> (\<forall>kvs items. data = JDict kvs \<and> map_of kvs ''schedules'' = Some (JList items) \<longrightarrow>
           fst ` set out = fst ` set (kept_entries clock items))"
proof (intro conjI allI impI)
  obtain items where "out = add_all (kept_entries clock items) []"
    using extract_result_shape [OF assms] by blast
  moreover have "\<forall>kes \<in> set (add_all (kept_entries clock items) []). snd kes \<noteq> []"
    by (rule nonempty_add_all) simp
  ultimately show "\<forall>kes \<in> set out. snd kes \<noteq> []"
    by simp
next
  fix kvs items
  assume a: "data = JDict kvs \<and> map_of kvs ''schedules'' = Some (JList items)"
  then have "snd (run_schedules clock items []) = Inr out"
    using assms snd_extract_schedules by simp
  then have "out = add_all (kept_entries clock items) []"
    by (simp add: snd_run_schedules split: if_splits)
  then show "fst ` set out = fst ` set (kept_entries clock items)"
    by (simp add: keys_add_all)
qed

theorem stage_sequences_nonempty_witness:
  "snd (extract_schedule_info utc_clock
     (JDict [(''schedules'', JList
        [JDict [(''id'', JInt 7), (''date_from'', JInt 1716000000000)],
         JDict [(''id'', JInt 1), (''date_from'', JInt 1716000000000),
                (''stage'', JDict [(''localized'', JList
                   [JDict [(''language'', JStr ''EN''), (''name'', JStr ''Main Stage'')]])]),
                (''artist'', JDict [(''name'', JStr ''Band X'')])]])]))
   = Inr [(KStr ''Main Stage'',
           [\<lparr>entry_id = JInt 1, date_from_iso8601 = JStr ''2024-05-18T02:40:00'',
             date_to_iso8601 = JNull, artist_name = JStr ''Band X'', genre = JNull\<rparr>])]
   \<and> fst (extract_schedule_info utc_clock
     (JDict [(''schedules'', JList
        [JDict [(''id'', JInt 7), (''date_from'', JInt 1716000000000)],
         JDict [(''id'', JInt 1), (''date_from'', JInt 1716000000000),
                (''stage'', JDict [(''localized'', JList
                   [JDict [(''language'', JStr ''EN''), (''name'', JStr ''Main Stage'')]])]),
                (''artist'', JDict [(''name'', JStr ''Band X'')])]])]))
   = [UnknownStageWarning (JInt 7)]
   \<and> snd (KStr ''Main Stage'',
           [\<lparr>entry_id = JInt 1, date_from_iso8601 = JStr ''2024-05-18T02:40:00'',
             date_to_iso8601 = JNull, artist_name = JStr ''Band X'', genre = JNull\<rparr>]) \<noteq> []"
proof -
  let ?data = "JDict [(''schedules'', JList
        [JDict [(''id'', JInt 7), (''date_from'', JInt 1716000000000)],
         JDict [(''id'', JInt 1), (''date_from'', JInt 1716000000000),
                (''stage'', JDict [(''localized'', JList
                   [JDict [(''language'', JStr ''EN''), (''name'', JStr ''Main Stage'')]])]),
                (''artist'', JDict [(''name'', JStr ''Band X'')])]])]"
  let ?kes = "(KStr ''Main Stage'',
           [\<lparr>entry_id = JInt 1, date_from_iso8601 = JStr ''2024-05-18T02:40:00'',
             date_to_iso8601 = JNull, artist_name = JStr ''Band X'', genre = JNull\<rparr>])"
  have r: "snd (extract_schedule_info utc_clock ?data) = Inr [?kes]"
    by code_simp
  have l: "fst (extract_schedule_info utc_clock ?data) = [UnknownStageWarning (JInt 7)]"
    by code_simp
  from stage_sequences_nonempty [OF r] have "\<forall>kes \<in> set [?kes]. snd kes \<noteq> []"
    by blast
  then have "snd ?kes \<noteq> []"
    by simp
  with r l show ?thesis
    by blast
qed

text \<open>
  C1, as stated, fails on an item whose \<open>date_from\<close> the runtime cannot convert: the gate
  looks at the raw \<open>date_from\<close>, the conversion prints its diagnostic and returns null, and
  the record is stored with a null \<open>date_from_iso8601\<close>.
\<close>

theorem record_fields_counterexample:
  "extract_schedule_info utc_clock
     (JDict [(''schedules'', JList
        [JDict [(''id'', JInt 1), (''date_from'', JInt 1000000000000000000),
                (''stage'', JDict [(''localized'', JList
                   [JDict [(''language'', JStr ''EN''), (''name'', JStr ''Main Stage'')]])]),
                (''artist'', JDict [(''name'', JStr ''Band X'')])]])])
   = ([ConversionError (JInt 1000000000000000000) ValueError],
      Inr [(KStr ''Main Stage'',
            [\<lparr>entry_id = JInt 1, date_from_iso8601 = JNull, date_to_iso8601 = JNull,
              artist_name = JStr ''Band X'', genre = JNull\<rparr>])])"
  by code_simp

text \<open>
  C1, as amended. Every record in any output sequence of \<open>extract_schedule_info\<close> has a
  non-null \<open>id\<close> and a non-null, non-empty \<open>artist_name\<close>, and is the record of an item that
  passes the inclusion gate and whose \<open>date_from\<close> is a number; its \<open>date_from_iso8601\<close> is
  the runtime's rendering of that number when the conversion succeeds, and null when the
  conversion raises.
\<close>

theorem output_record_fields:
  assumes "snd (extract_schedule_info clock data) = Inr out"
    and "(k, es) \<in> set out" and "p \<in> set es"
  shows "entry_id p \<noteq> JNull \<and> artist_name p \<noteq> JNull \<and> truthy (artist_name p)
     \<and> (\<exists>item ms. passes_gate item
           \<and> snd (performance_of clock item) = Inr (Some (k, p))
           \<and> numeric_of (get_or_null item ''date_from'') = Some ms
           \<and> date_from_iso8601 p = (case clock ms of Inr s \<Rightarrow> JStr s | Inl e \<Rightarrow> JNull))"
proof -
  obtain items where "out = add_all (kept_entries clock items) []"
    using extract_result_shape [OF assms(1)] by blast
  with assms(2,3) have "(k, p) \<in> set (kept_entries clock items)"
    using members_add_all by blast
  then obtain item where item: "snd (performance_of clock item) = Inr (Some (k, p))"
    using kept_entries_origin by blast
  note f = kept_fields [OF item]
  from f have "entry_id p \<noteq> JNull" and t: "truthy (artist_name p)"
    by (simp_all add: passes_gate_def)
  moreover from t have "artist_name p \<noteq> JNull"
    by auto
  ultimately show ?thesis
    using f item by blast
qed

theorem output_record_fields_witness:
  "snd (extract_schedule_info utc_clock
     (JDict [(''schedules'', JList
        [JDict [(''id'', JInt 1), (''date_from'', JInt 1716000000000),
                (''date_to'', JInt 1716003600000),
                (''stage'', JDict [(''localized'', JList
                   [JDict [(''language'', JStr ''EN''), (''name'', JStr ''Main Stage'')]])]),
                (''artist'', JDict [(''name'', JStr ''Band X''), (''localized'', JList
                   [JDict [(''language'', JStr ''EN''), (''genre'', JStr ''Metal'')]])])]])]))
   = Inr [(KStr ''Main Stage'',
           [\<lparr>entry_id = JInt 1, date_from_iso8601 = JStr ''2024-05-18T02:40:00'',
             date_to_iso8601 = JStr ''2024-05-18T03:40:00'', artist_name = JStr ''Band X'',
             genre = JStr ''Metal''\<rparr>])]
   \<and> entry_id \<lparr>entry_id = JInt 1, date_from_iso8601 = JStr ''2024-05-18T02:40:00'',
             date_to_iso8601 = JStr ''2024-05-18T03:40:00'', artist_name = JStr ''Band X'',
             genre = JStr ''Metal''\<rparr> \<noteq> JNull
   \<and> truthy (artist_name \<lparr>entry_id = JInt 1, date_from_iso8601 = JStr ''2024-05-18T02:40:00'',
             date_to_iso8601 = JStr ''2024-05-18T03:40:00'', artist_name = JStr ''Band X'',
             genre = JStr ''Metal''\<rparr>)"
proof -
  let ?data = "JDict [(''schedules'', JList
        [JDict [(''id'', JInt 1), (''date_from'', JInt 1716000000000),
                (''date_to'', JInt 1716003600000),
                (''stage'', JDict [(''localized'', JList
                   [JDict [(''language'', JStr ''EN''), (''name'', JStr ''Main Stage'')]])]),
                (''artist'', JDict [(''name'', JStr ''Band X''), (''localized'', JList
                   [JDict [(''language'', JStr ''EN''), (''genre'', JStr ''Metal'')]])])]])]"
  let ?p = "\<lparr>entry_id = JInt 1, date_from_iso8601 = JStr ''2024-05-18T02:40:00'',
             date_to_iso8601 = JStr ''2024-05-18T03:40:00'', artist_name = JStr ''Band X'',
             genre = JStr ''Metal''\<rparr>"
  have r: "snd (extract_schedule_info utc_clock ?data) = Inr [(KStr ''Main Stage'', [?p])]"
    by code_simp
  have m: "(KStr ''Main Stage'', [?p]) \<in> set [(KStr ''Main Stage'', [?p])]"
    by simp
  have e: "?p \<in> set [?p]"
    by simp
  from output_record_fields [OF r m e]
  have "entry_id ?p \<noteq> JNull \<and> truthy (artist_name ?p)"
    by blast
  with r show ?thesis
    by blast
qed

subsection \<open>A malformed item\<close>

text \<open>
  C4. The handler of the loop formats \<open>item.get('id', 'Unknown')\<close>. For an entry of
  \<open>schedules\<close> that is not an object (here \<open>null\<close>) this call raises \<open>AttributeError\<close>
  inside the handler: the exception leaves \<open>extract_schedule_info\<close>, and the record of the
  well-formed item before it is lost with the rest of the run.
\<close>

theorem malformed_item_aborts_run:
  "extract_schedule_info utc_clock
     (JDict [(''schedules'', JList
        [JDict [(''id'', JInt 1), (''date_from'', JInt 1716000000000),
                (''stage'', JDict [(''localized'', JList
                   [JDict [(''language'', JStr ''EN''), (''name'', JStr ''Main Stage'')]])]),
                (''artist'', JDict [(''name'', JStr ''Band X'')])],
         JNull])])
   = ([], Inl AttributeError)"
  by code_simp


subsection \<open>The genre\<close>

text \<open>
  C2, as stated, fails on an artist whose \<open>localized\<close> list has entries but none of
  language \<open>EN\<close>: the genre of the record is null, not the genre of the first entry.
\<close>

theorem genre_fallback_counterexample:
  "extract_schedule_info utc_clock
     (JDict [(''schedules'', JList
        [JDict [(''id'', JInt 1), (''date_from'', JInt 1716000000000),
                (''stage'', JDict [(''localized'', JList
                   [JDict [(''language'', JStr ''EN''), (''name'', JStr ''Main Stage'')]])]),
                (''artist'', JDict [(''name'', JStr ''Band X''), (''localized'', JList
                   [JDict [(''language'', JStr ''CZ''), (''genre'', JStr ''Metal'')]])])]])])
   = ([],
      Inr [(KStr ''Main Stage'',
            [\<lparr>entry_id = JInt 1, date_from_iso8601 = JStr ''2024-05-18T02:40:00'',
              date_to_iso8601 = JNull, artist_name = JStr ''Band X'', genre = JNull\<rparr>])])"
  by code_simp

text \<open>
  C2, as amended. The genre of a record is taken from the first entry with language \<open>EN\<close>
  of the artist's \<open>localized\<close> list and from no other entry: it is that entry's \<open>genre\<close>
  (null when the entry has none), and it is null when the list has no entry of language
  \<open>EN\<close>, is empty, or is absent. The first-entry fallback of the stage name has no
  counterpart here.
\<close>

theorem genre_from_first_en_entry:
  assumes "snd (performance_of clock item) = Inr (Some (k, p))"
    and "get_or_null item ''artist'' = JDict artist"
  shows "(map_of artist ''localized'' = None \<longrightarrow> genre p = JNull)
     \<and> (\<forall>entries. map_of artist ''localized'' = Some (JList entries) \<longrightarrow>
           genre p = (case find is_EN entries of
                        None \<Rightarrow> JNull
                      | Some e \<Rightarrow> get_or_null e ''genre''))"
  using assms(1)
proof (rule performance_of_SomeE)
  fix artist_info name en g
    and schedule_id iso_date_from iso_date_to :: json
  assume a: "dict_get item ''artist'' (JDict []) = Inr artist_info"
    "artist_name_lookup artist_info = Inr name"
    "en_artist_lookup artist_info = Inr en"
    "truthy name"
    "genre_lookup en = Inr g"
    "p = \<lparr>entry_id = schedule_id, date_from_iso8601 = iso_date_from,
               date_to_iso8601 = iso_date_to, artist_name = name, genre = g\<rparr>"
  have ai: "artist_info = JDict artist"
    using a(1) assms(2) by (cases item) (auto simp add: get_or_null_def split: option.splits)
  have tr: "artist \<noteq> []"
    using a(2,4) ai by (auto simp add: artist_name_lookup_def split: if_splits)
  have gp: "genre p = g"
    using a(6) by simp
  have absent: "g = JNull" if "map_of artist ''localized'' = None"
  proof -
    from that have "''localized'' \<notin> fst ` set artist"
      by (simp add: map_of_eq_None_iff)
    with a(3) ai tr have "en = JNull"
      by (simp add: en_artist_lookup_def)
    with a(5) show ?thesis
      by (simp add: genre_lookup_def)
  qed
  have present: "g = (case find is_EN entries of None \<Rightarrow> JNull | Some e \<Rightarrow> get_or_null e ''genre'')"
    if m: "map_of artist ''localized'' = Some (JList entries)" for entries
  proof -
    from m have "''localized'' \<in> fst ` set artist"
      by (metis map_of_eq_None_iff option.distinct(1))
    with a(3) ai tr m have "first_EN entries = Inr en"
      by (simp add: en_artist_lookup_def next_EN_def)
    then have en: "en = (case find is_EN entries of None \<Rightarrow> JNull | Some e \<Rightarrow> e)"
      by (rule first_EN_find)
    show ?thesis
    proof (cases "find is_EN entries")
      case None
      with en a(5) show ?thesis
        by (simp add: genre_lookup_def)
    next
      case (Some e)
      then have "truthy e \<and> is_dict e"
        using find_is_EN_Some is_EN_truthy by blast
      with en Some a(5) show ?thesis
        by (simp add: genre_lookup_def dict_get_null)
    qed
  qed
  show ?thesis
    using gp absent present by blast
qed

theorem genre_from_first_en_entry_witness:
  "snd (performance_of utc_clock
     (JDict [(''id'', JInt 1), (''date_from'', JInt 1716000000000),
             (''artist'', JDict [(''name'', JStr ''Band X''), (''localized'', JList
                [JDict [(''language'', JStr ''CZ''), (''genre'', JStr ''Kov'')],
                 JDict [(''language'', JStr ''EN''), (''genre'', JStr ''Metal'')]])])]))
   = Inr (Some (KStr ''Unknown Stage'',
           \<lparr>entry_id = JInt 1, date_from_iso8601 = JStr ''2024-05-18T02:40:00'',
             date_to_iso8601 = JNull, artist_name = JStr ''Band X'', genre = JStr ''Metal''\<rparr>))
   \<and> genre \<lparr>entry_id = JInt 1, date_from_iso8601 = JStr ''2024-05-18T02:40:00'',
             date_to_iso8601 = JNull, artist_name = JStr ''Band X'', genre = JStr ''Metal''\<rparr>
     = (case find is_EN
               [JDict [(''language'', JStr ''CZ''), (''genre'', JStr ''Kov'')],
                JDict [(''language'', JStr ''EN''), (''genre'', JStr ''Metal'')]] of
          None \<Rightarrow> JNull
        | Some e \<Rightarrow> get_or_null e ''genre'')"
proof -
  let ?entries = "[JDict [(''language'', JStr ''CZ''), (''genre'', JStr ''Kov'')],
                 JDict [(''language'', JStr ''EN''), (''genre'', JStr ''Metal'')]]"
  let ?artist = "[(''name'', JStr ''Band X''), (''localized'', JList ?entries)]"
  let ?item = "JDict [(''id'', JInt 1), (''date_from'', JInt 1716000000000),
             (''artist'', JDict ?artist)]"
  let ?p = "\<lparr>entry_id = JInt 1, date_from_iso8601 = JStr ''2024-05-18T02:40:00'',
             date_to_iso8601 = JNull, artist_name = JStr ''Band X'', genre = JStr ''Metal''\<rparr>"
  have r: "snd (performance_of utc_clock ?item) = Inr (Some (KStr ''Unknown Stage'', ?p))"
    by code_simp
  have a: "get_or_null ?item ''artist'' = JDict ?artist"
    by (simp add: get_or_null_def)
  have m: "map_of ?artist ''localized'' = Some (JList ?entries)"
    by simp
  from genre_from_first_en_entry [OF r a] m
  have "genre ?p = (case find is_EN ?entries of None \<Rightarrow> JNull | Some e \<Rightarrow> get_or_null e ''genre'')"
    by blast
  with r show ?thesis
    by blast
qed


subsection \<open>The inclusion gate\<close>




subsection \<open>Grouping by stage\<close>




subsection \<open>The entry point\<close>

lemma snd_main:
  assumes "snd (fetch_and_extract_schedule_data response) = Inr raw_data"
  shows "snd (main clock dest response) =
     (if truthy raw_data then
        (case snd (extract_schedule_info clock raw_data) of
           Inl e \<Rightarrow> Inl e
         | Inr stages_data \<Rightarrow>
             if stages_data \<noteq> [] then Inr (Some (dest, stages_data)) else Inr None)
      else Inr None)"
  using assms by (simp add: main_def snd_bind step_simps split: sum.splits)

text \<open>
  C8, as stated, fails when the fetch succeeds with an empty object: extraction of that
  value would yield the empty mapping, but the entry point tests the fetched value for
  truth, takes the branch of a failed fetch and prints the failure line; the line about
  no valid schedule information is not printed.
\<close>

theorem entry_point_counterexample:
  "main utc_clock ''schedule_by_stage.json'' (Decoded (JDict []))
     = ([FetchingData, FailedToRetrieve], Inr None)
   \<and> extract_schedule_info utc_clock (JDict []) = ([InvalidDataFormat], Inr [])"
  by code_simp

text \<open>
  C8, as amended. At the entry point: when the fetch returns the no-data sentinel, which
  it does on a failed request and on a body that is not JSON, or any other value that is
  not truthy (\<open>null\<close>, \<open>false\<close>, zero, an empty string, list or object), failure is reported
  and no file is written; when the fetched value is truthy and extraction yields an empty
  mapping, "no valid schedule information" is reported and no file is written; a file is
  written exactly when the fetched value is truthy and extraction returns a non-empty
  mapping, and it is that mapping, at the destination path.
\<close>

theorem entry_point_outcomes:
  assumes "snd (fetch_and_extract_schedule_data response) = Inr raw_data"
  shows "((\<forall>data. response \<noteq> Decoded data) \<longrightarrow> raw_data = JNull)
     \<and> (\<not> truthy raw_data \<longrightarrow>
           FailedToRetrieve \<in> set (fst (main clock dest response))
           \<and> snd (main clock dest response) = Inr None)
     \<and> (truthy raw_data \<and> snd (extract_schedule_info clock raw_data) = Inr [] \<longrightarrow>
           NoValidSchedule \<in> set (fst (main clock dest response))
           \<and> snd (main clock dest response) = Inr None)
     \<and> (\<forall>written. snd (main clock dest response) = Inr (Some written) \<longleftrightarrow>
           truthy raw_data
           \<and> (\<exists>stages_data. snd (extract_schedule_info clock raw_data) = Inr stages_data
                 \<and> stages_data \<noteq> [] \<and> written = (dest, stages_data)))"
proof (intro conjI impI allI)
  assume "\<forall>data. response \<noteq> Decoded data"
  then show "raw_data = JNull"
    using assms by (cases response) (simp_all add: snd_bind step_simps)
next
  assume "\<not> truthy raw_data"
  then show "FailedToRetrieve \<in> set (fst (main clock dest response))"
    using assms by (simp add: main_def fst_bind snd_bind step_simps)
next
  assume "\<not> truthy raw_data"
  then show "snd (main clock dest response) = Inr None"
    using assms by (simp add: snd_main)
next
  assume "truthy raw_data \<and> snd (extract_schedule_info clock raw_data) = Inr []"
  then show "NoValidSchedule \<in> set (fst (main clock dest response))"
    using assms by (simp add: main_def fst_bind snd_bind step_simps)
next
  assume "truthy raw_data \<and> snd (extract_schedule_info clock raw_data) = Inr []"
  then show "snd (main clock dest response) = Inr None"
    using assms by (simp add: snd_main)
next
  fix written
  show "snd (main clock dest response) = Inr (Some written) \<longleftrightarrow>
      truthy raw_data
      \<and> (\<exists>stages_data. snd (extract_schedule_info clock raw_data) = Inr stages_data
            \<and> stages_data \<noteq> [] \<and> written = (dest, stages_data))"
    by (auto simp add: snd_main [OF assms] split: sum.splits if_splits)
qed

theorem entry_point_outcomes_witness:
  "snd (fetch_and_extract_schedule_data (Decoded (JDict [(''schedules'', JList [])])))
     = Inr (JDict [(''schedules'', JList [])])
   \<and> truthy (JDict [(''schedules'', JList [])])
   \<and> snd (extract_schedule_info utc_clock (JDict [(''schedules'', JList [])])) = Inr []
   \<and> NoValidSchedule \<in> set (fst (main utc_clock ''schedule_by_stage.json''
         (Decoded (JDict [(''schedules'', JList [])]))))
   \<and> snd (main utc_clock ''schedule_by_stage.json''
         (Decoded (JDict [(''schedules'', JList [])]))) = Inr None
   \<and> snd (fetch_and_extract_schedule_data RequestFailed) = Inr JNull
   \<and> FailedToRetrieve \<in> set (fst (main utc_clock ''schedule_by_stage.json'' RequestFailed))
   \<and> snd (main utc_clock ''schedule_by_stage.json'' RequestFailed) = Inr None"
proof -
  let ?data = "JDict [(''schedules'', JList [])]"
  have f: "snd (fetch_and_extract_schedule_data (Decoded ?data)) = Inr ?data"
    by (simp add: step_simps)
  have t: "truthy ?data"
    by simp
  have e: "snd (extract_schedule_info utc_clock ?data) = Inr []"
    by code_simp
  have f': "snd (fetch_and_extract_schedule_data RequestFailed) = Inr JNull"
    by (simp add: snd_bind step_simps)
  have n: "\<not> truthy JNull"
    by simp
  from entry_point_outcomes [OF f, of utc_clock "''schedule_by_stage.json''"] t e
  have a: "NoValidSchedule \<in> set (fst (main utc_clock ''schedule_by_stage.json'' (Decoded ?data)))
      \<and> snd (main utc_clock ''schedule_by_stage.json'' (Decoded ?data)) = Inr None"
    by blast
  from entry_point_outcomes [OF f', of utc_clock "''schedule_by_stage.json''"] n
  have b: "FailedToRetrieve \<in> set (fst (main utc_clock ''schedule_by_stage.json'' RequestFailed))
      \<and> snd (main utc_clock ''schedule_by_stage.json'' RequestFailed) = Inr None"
    by blast
  from f t e f' a b show ?thesis
    by blast
qed


end
